theory Spec2Isabelle
  imports Main "HOL-Library.Sublist"
begin

section \<open>The Mistral chat model adapter: data model\<close>

text \<open>
  The development embeds the translation and aggregation functions of
  \<^verbatim>\<open>libs/langchain-mistralai/src/chat_models.ts\<close>. The source file holds two
  revisions of the module, one after the other; they agree on every function modelled
  here except \<^verbatim>\<open>getContent\<close>, of which both revisions are embedded.

  JavaScript values are modelled as follows: a property that may be \<^verbatim>\<open>undefined\<close>
  or \<^verbatim>\<open>null\<close> is an \<open>option\<close>, a \<^verbatim>\<open>throw\<close> is the left summand of a
  sum type, and a string is a \<open>string\<close>.
\<close>

subsection \<open>Message content\<close>

text \<open>
  A content part (\<^verbatim>\<open>MessageContentComplex\<close>) is an object discriminated by its
  \<^verbatim>\<open>type\<close> tag; the code reads the tag and then the property the tag promises.
\<close>

record MessageContentComplex =
  part_type :: string
  part_text :: "string option"
  part_image_url :: "string option"

text \<open>
  \<^verbatim>\<open>MessageContent\<close> is a string or an array of parts. \<open>ContentOther\<close> stands for a
  run-time value that is neither, which the type excludes and the code still guards.
\<close>

datatype MessageContent =
    ContentString string
  | ContentArray "MessageContentComplex list"
  | ContentOther

text \<open>The provider's content chunks, as the object literals of the code build them.\<close>

datatype ContentChunk =
    ImageURLChunk "string option"
  | TextChunk "string option"

datatype MistralContent =
    MistralString string
  | MistralChunks "ContentChunk list"

subsection \<open>Errors\<close>

text \<open>
  One constructor for each \<^verbatim>\<open>throw\<close> of the modelled functions. The errors raised
  by \<^verbatim>\<open>getContent\<close> carry the content that the message text prints.
\<close>

datatype error =
    UnknownMessageType string
  | HumanContentNotSupported MessageContent
  | SystemContentNotSupported MessageContent
  | ContentChunkNotSupported MessageContent
  | NonTextContentNotSupported MessageContent
  | NoMessageFound
  | AbortError
  | TypeError

text \<open>The errors of the content translator (the spec's content-shape error).\<close>

fun isContentShapeError :: "error \<Rightarrow> bool" where
  "isContentShapeError (HumanContentNotSupported c) = True"
| "isContentShapeError (SystemContentNotSupported c) = True"
| "isContentShapeError (ContentChunkNotSupported c) = True"
| "isContentShapeError (NonTextContentNotSupported c) = True"
| "isContentShapeError e = False"

section \<open>Outbound translation\<close>

subsection \<open>getRole\<close>

text \<open>
  The \<^verbatim>\<open>switch\<close> of \<^verbatim>\<open>getRole\<close>, on the message type as the string it is at
  run time.
\<close>

definition getRole :: "string \<Rightarrow> error + string" where
  "getRole role =
     (if role = ''human'' then Inr ''user''
      else if role = ''ai'' then Inr ''assistant''
      else if role = ''system'' then Inr ''system''
      else if role = ''tool'' then Inr ''tool''
      else if role = ''function'' then Inr ''assistant''
      else Inl (UnknownMessageType role))"

subsection \<open>Array map with a callback that may throw\<close>

text \<open>
  \<^verbatim>\<open>xs.map(f)\<close> calls \<open>f\<close> on the elements from left to right; the first
  \<^verbatim>\<open>throw\<close> leaves the whole expression and no array is built.
\<close>

fun mapE :: "('a \<Rightarrow> error + 'b) \<Rightarrow> 'a list \<Rightarrow> error + 'b list" where
  "mapE f [] = Inr []"
| "mapE f (x # xs) =
     (case f x of
        Inl e \<Rightarrow> Inl e
      | Inr y \<Rightarrow> (case mapE f xs of Inl e \<Rightarrow> Inl e | Inr ys \<Rightarrow> Inr (y # ys)))"

subsection \<open>getContent, first revision (lines 185 to 243)\<close>

text \<open>The callback of the \<^verbatim>\<open>user\<close> branch.\<close>

definition userChunk :: "MessageContent \<Rightarrow> MessageContentComplex \<Rightarrow> error + ContentChunk" where
  "userChunk content messageContentComplex =
     (if part_type messageContentComplex = ''image_url''
        then Inr (ImageURLChunk (part_image_url messageContentComplex))
      else if part_type messageContentComplex = ''text''
        then Inr (TextChunk (part_text messageContentComplex))
      else Inl (HumanContentNotSupported content))"

text \<open>The callback of the \<^verbatim>\<open>system\<close> branch.\<close>

definition systemChunk :: "MessageContent \<Rightarrow> MessageContentComplex \<Rightarrow> error + ContentChunk" where
  "systemChunk content messageContentComplex =
     (if part_type messageContentComplex = ''text''
        then Inr (TextChunk (part_text messageContentComplex))
      else Inl (SystemContentNotSupported content))"

definition asChunks :: "error + ContentChunk list \<Rightarrow> error + MistralContent" where
  "asChunks r = (case r of Inl e \<Rightarrow> Inl e | Inr cs \<Rightarrow> Inr (MistralChunks cs))"

definition getContent :: "MessageContent \<Rightarrow> string \<Rightarrow> error + MistralContent" where
  "getContent content role =
     (case getRole role of
        Inl e \<Rightarrow> Inl e
      | Inr mistralRole \<Rightarrow>
          (case content of
             ContentString s \<Rightarrow> Inr (MistralString s)
           | ContentArray parts \<Rightarrow>
               if mistralRole = ''user'' then asChunks (mapE (userChunk content) parts)
               else if mistralRole = ''system'' then asChunks (mapE (systemChunk content) parts)
               else Inl (NonTextContentNotSupported content)
           | ContentOther \<Rightarrow> Inl (NonTextContentNotSupported content)))"

subsection \<open>getContent, second revision (lines 1531 to 1577)\<close>

text \<open>
  The inner function \<^verbatim>\<open>_generateContentChunk\<close>: one check of the part's tag
  against the mapped role.
\<close>

definition generateContentChunk ::
  "MessageContent \<Rightarrow> MessageContentComplex \<Rightarrow> string \<Rightarrow> error + ContentChunk" where
  "generateContentChunk content complex role =
     (if part_type complex = ''image_url'' \<and> role = ''user''
        then Inr (ImageURLChunk (part_image_url complex))
      else if part_type complex = ''text'' \<and> (role = ''user'' \<or> role = ''system'')
        then Inr (TextChunk (part_text complex))
      else Inl (ContentChunkNotSupported content))"

definition getContent_v2 :: "MessageContent \<Rightarrow> string \<Rightarrow> error + MistralContent" where
  "getContent_v2 content role =
     (case getRole role of
        Inl e \<Rightarrow> Inl e
      | Inr mistralRole \<Rightarrow>
          (case content of
             ContentString s \<Rightarrow> Inr (MistralString s)
           | ContentArray parts \<Rightarrow>
               asChunks (mapE (\<lambda>messageContentComplex.
                 generateContentChunk content messageContentComplex mistralRole) parts)
           | ContentOther \<Rightarrow> Inl (NonTextContentNotSupported content)))"

subsection \<open>Tool calls of an outbound message\<close>

text \<open>
  Argument payloads are JSON values; the type \<open>'j\<close> stands for them. A provider tool
  call carries its arguments as a string or as an object.
\<close>

datatype 'j Arguments =
    ArgumentsString string
  | ArgumentsObject 'j

record 'j FunctionCall =
  fn_name :: string
  fn_arguments :: "'j Arguments option"

record 'j MistralAIToolCall =
  call_id :: "string option"
  call_function :: "'j FunctionCall option"

text \<open>
  Properties that the code sets to a constant (\<^verbatim>\<open>type: "function"\<close>,
  \<^verbatim>\<open>type: "tool_call_chunk"\<close>, the empty \<^verbatim>\<open>additional_kwargs\<close> of the decoded
  response) are left out of the records.
\<close>

text \<open>The framework's tool call and the legacy tool call of \<^verbatim>\<open>additional_kwargs\<close>.\<close>

record 'j ToolCall =
  tc_name :: string
  tc_args :: 'j
  tc_id :: "string option"

record 'j OpenAIToolCall =
  openai_id :: string
  openai_function :: "'j FunctionCall"

record 'j BaseMessage =
  msg_type :: string
  msg_content :: MessageContent
  msg_name :: "string option"
  msg_tool_call_id :: "string option"
  msg_tool_calls :: "'j ToolCall list option"
  msg_additional_tool_calls :: "'j OpenAIToolCall list option"

text \<open>
  In \<open>'j BaseMessage\<close>, \<open>msg_type\<close> is what \<^verbatim>\<open>_getType()\<close> returns,
  \<open>msg_tool_call_id\<close> is \<open>Some t\<close> exactly when the object has a property
  \<^verbatim>\<open>tool_call_id\<close> whose value is the string \<open>t\<close>, \<open>msg_tool_calls\<close> is the
  property \<^verbatim>\<open>tool_calls\<close> and \<open>msg_additional_tool_calls\<close> is
  \<^verbatim>\<open>additional_kwargs.tool_calls\<close>.
\<close>

text \<open>
  Modelled from the spec: \<^verbatim>\<open>isAIMessage\<close> of the framework's message module is not
  among the sources; the spec calls its positive case an assistant message, the
  message whose type is \<^verbatim>\<open>ai\<close>.
\<close>

definition isAIMessage :: "'j BaseMessage \<Rightarrow> bool" where
  "isAIMessage message = (msg_type message = ''ai'')"

text \<open>
  \<^verbatim>\<open>getTools\<close>. The id coercion \<^verbatim>\<open>_convertToolCallIdToMistralCompatible\<close> (of
  \<^verbatim>\<open>utils.ts\<close>) and \<^verbatim>\<open>convertLangChainToolCallToOpenAI\<close> (of the framework) are
  not among the sources; they are the parameters \<open>conv\<close> and \<open>toOpenAI\<close>.
\<close>

definition getTools ::
  "(string \<Rightarrow> string) \<Rightarrow> ('j ToolCall \<Rightarrow> 'j MistralAIToolCall) \<Rightarrow> 'j BaseMessage
     \<Rightarrow> 'j MistralAIToolCall list option" where
  "getTools conv toOpenAI message =
     (case (if isAIMessage message then msg_tool_calls message else None) of
        Some (t # ts) \<Rightarrow>
          Some (map toOpenAI
            (map (\<lambda>toolCall.
                    toolCall\<lparr>tc_id := Some (conv (case tc_id toolCall of
                                                    None \<Rightarrow> [] | Some i \<Rightarrow> i))\<rparr>)
              (t # ts)))
      | _ \<Rightarrow>
          (case msg_additional_tool_calls message of
             Some (t # ts) \<Rightarrow>
               Some (map (\<lambda>toolCall.
                       \<lparr>call_id = Some (conv (openai_id toolCall)),
                        call_function = Some (openai_function toolCall)\<rparr>) (t # ts))
           | _ \<Rightarrow> None))"

subsection \<open>convertMessagesToMistralMessages\<close>

text \<open>The three object shapes the callback of the outer \<^verbatim>\<open>map\<close> returns.\<close>

datatype 'j MistralAIMessage =
    ToolResultMessage string MistralContent "string option" string
  | AssistantMessage string MistralContent "'j MistralAIToolCall list option"
  | PlainMessage string MistralContent

text \<open>
  The callback: \<^verbatim>\<open>getTools\<close>, then \<^verbatim>\<open>getContent\<close>, then the test for a
  string \<^verbatim>\<open>tool_call_id\<close>, then \<^verbatim>\<open>isAIMessage\<close>. The two revisions differ in
  \<^verbatim>\<open>getContent\<close> only, which is the parameter \<open>gc\<close>.
\<close>

definition convertMessage ::
  "(MessageContent \<Rightarrow> string \<Rightarrow> error + MistralContent) \<Rightarrow> (string \<Rightarrow> string)
     \<Rightarrow> ('j ToolCall \<Rightarrow> 'j MistralAIToolCall) \<Rightarrow> 'j BaseMessage
     \<Rightarrow> error + 'j MistralAIMessage" where
  "convertMessage gc conv toOpenAI message =
     (let toolCalls = getTools conv toOpenAI message in
      case gc (msg_content message) (msg_type message) of
        Inl e \<Rightarrow> Inl e
      | Inr content \<Rightarrow>
          (case getRole (msg_type message) of
             Inl e \<Rightarrow> Inl e
           | Inr role \<Rightarrow>
               (case msg_tool_call_id message of
                  Some tool_call_id \<Rightarrow>
                    Inr (ToolResultMessage role content (msg_name message) (conv tool_call_id))
                | None \<Rightarrow>
                    if isAIMessage message then Inr (AssistantMessage role content toolCalls)
                    else Inr (PlainMessage role content))))"

definition convertMessagesToMistralMessages ::
  "(string \<Rightarrow> string) \<Rightarrow> ('j ToolCall \<Rightarrow> 'j MistralAIToolCall) \<Rightarrow> 'j BaseMessage list
     \<Rightarrow> error + 'j MistralAIMessage list" where
  "convertMessagesToMistralMessages conv toOpenAI messages =
     mapE (convertMessage getContent conv toOpenAI) messages"

definition convertMessagesToMistralMessages_v2 ::
  "(string \<Rightarrow> string) \<Rightarrow> ('j ToolCall \<Rightarrow> 'j MistralAIToolCall) \<Rightarrow> 'j BaseMessage list
     \<Rightarrow> error + 'j MistralAIMessage list" where
  "convertMessagesToMistralMessages_v2 conv toOpenAI messages =
     mapE (convertMessage getContent_v2 conv toOpenAI) messages"

text \<open>
  The outbound message as the spec words it (section 4.4), for comparison with the
  code: a tool-result message gives role, content, name and the coerced id; an
  assistant message gives role, content and its tool calls; any other message gives
  role and content.
\<close>

definition specOutboundMessage ::
  "(string \<Rightarrow> string) \<Rightarrow> ('j ToolCall \<Rightarrow> 'j MistralAIToolCall) \<Rightarrow> string \<Rightarrow> MistralContent
     \<Rightarrow> 'j BaseMessage \<Rightarrow> 'j MistralAIMessage" where
  "specOutboundMessage conv toOpenAI role content message =
     (case msg_tool_call_id message of
        Some t \<Rightarrow> ToolResultMessage role content (msg_name message) (conv t)
      | None \<Rightarrow>
          if msg_type message = ''ai''
          then AssistantMessage role content (getTools conv toOpenAI message)
          else PlainMessage role content)"

section \<open>Inbound translation\<close>

subsection \<open>Synthesized identifiers and usage\<close>

text \<open>
  \<^verbatim>\<open>uuidv4\<close> is the random generator of the \<^verbatim>\<open>uuid\<close> package. The parameter
  \<open>uuidv4\<close> gives the value of its \<open>k\<close>-th call within one decoding, and the decoders
  count the calls they made. \<open>freshId\<close> is
  \<^verbatim>\<open>uuidv4().replace(/-/g, "")\<close>.
\<close>

definition freshId :: "(nat \<Rightarrow> string) \<Rightarrow> nat \<Rightarrow> string" where
  "freshId uuidv4 k = filter (\<lambda>c. c \<noteq> CHR ''-'') (uuidv4 k)"

record UsageInfo =
  promptTokens :: nat
  completionTokens :: nat
  totalTokens :: nat

record UsageMetadata =
  input_tokens :: nat
  output_tokens :: nat
  total_tokens :: nat

text \<open>The expression \<^verbatim>\<open>usage ? {input_tokens: ..., ...} : undefined\<close>.\<close>

definition usageMetadata :: "UsageInfo option \<Rightarrow> UsageMetadata option" where
  "usageMetadata usage =
     (case usage of
        None \<Rightarrow> None
      | Some u \<Rightarrow> Some \<lparr>input_tokens = promptTokens u, output_tokens = completionTokens u,
                        total_tokens = totalTokens u\<rparr>)"

subsection \<open>mistralAIResponseToChatMessage\<close>

record 'j ResponseMessage =
  resp_role :: string
  resp_content :: "string option"
  resp_tool_calls :: "'j MistralAIToolCall list option"

record 'j ResponseChoice =
  resp_message :: "'j ResponseMessage option"

record ('j, 'v) AIMessageFields =
  ai_content :: string
  ai_tool_calls :: "'j ToolCall list"
  ai_invalid_tool_calls :: "'v list"
  ai_usage_metadata :: "UsageMetadata option"

datatype ('j, 'v) ChatMessage =
    AIMessage "('j, 'v) AIMessageFields"
  | HumanMessage string

text \<open>
  The \<^verbatim>\<open>for\<close> loop over the raw tool calls, with its \<^verbatim>\<open>try\<close> and
  \<^verbatim>\<open>catch\<close>. \<^verbatim>\<open>parseToolCall\<close> and \<^verbatim>\<open>makeInvalidToolCall\<close> (of the
  framework) are not among the sources; they are the parameters \<open>parseToolCall\<close>,
  whose left summand is the message of the exception it throws, and
  \<open>makeInvalidToolCall\<close>. The state is the number of \<^verbatim>\<open>uuidv4\<close> calls made and
  the two arrays.
\<close>

fun parseRawToolCalls ::
  "('j MistralAIToolCall \<Rightarrow> string + 'j ToolCall) \<Rightarrow> ('j MistralAIToolCall \<Rightarrow> string \<Rightarrow> 'v)
     \<Rightarrow> (nat \<Rightarrow> string) \<Rightarrow> 'j MistralAIToolCall list
     \<Rightarrow> nat \<times> 'j ToolCall list \<times> 'v list \<Rightarrow> nat \<times> 'j ToolCall list \<times> 'v list" where
  "parseRawToolCalls parseToolCall makeInvalidToolCall uuidv4 [] st = st"
| "parseRawToolCalls parseToolCall makeInvalidToolCall uuidv4 (rawToolCall # rest)
       (k, toolCalls, invalidToolCalls) =
     (case parseToolCall rawToolCall of
        Inr parsed \<Rightarrow>
          (case tc_id parsed of
             Some i \<Rightarrow>
               parseRawToolCalls parseToolCall makeInvalidToolCall uuidv4 rest
                 (k, toolCalls @ [parsed\<lparr>tc_id := Some i\<rparr>], invalidToolCalls)
           | None \<Rightarrow>
               parseRawToolCalls parseToolCall makeInvalidToolCall uuidv4 rest
                 (Suc k, toolCalls @ [parsed\<lparr>tc_id := Some (freshId uuidv4 k)\<rparr>],
                  invalidToolCalls))
      | Inl message \<Rightarrow>
          parseRawToolCalls parseToolCall makeInvalidToolCall uuidv4 rest
            (k, toolCalls, invalidToolCalls @ [makeInvalidToolCall rawToolCall message]))"

definition mistralAIResponseToChatMessage ::
  "('j MistralAIToolCall \<Rightarrow> string + 'j ToolCall) \<Rightarrow> ('j MistralAIToolCall \<Rightarrow> string \<Rightarrow> 'v)
     \<Rightarrow> (nat \<Rightarrow> string) \<Rightarrow> 'j ResponseChoice \<Rightarrow> UsageInfo option
     \<Rightarrow> error + ('j, 'v) ChatMessage" where
  "mistralAIResponseToChatMessage parseToolCall makeInvalidToolCall uuidv4 choice usage =
     (case resp_message choice of
        None \<Rightarrow> Inl NoMessageFound
      | Some message \<Rightarrow>
          (let rawToolCalls = (case resp_tool_calls message of None \<Rightarrow> [] | Some cs \<Rightarrow> cs);
               content = (case resp_content message of None \<Rightarrow> [] | Some c \<Rightarrow> c)
           in if resp_role message = ''assistant''
              then (case parseRawToolCalls parseToolCall makeInvalidToolCall uuidv4
                           rawToolCalls (0, [], []) of
                      (k, toolCalls, invalidToolCalls) \<Rightarrow>
                        Inr (AIMessage \<lparr>ai_content = content, ai_tool_calls = toolCalls,
                               ai_invalid_tool_calls = invalidToolCalls,
                               ai_usage_metadata = usageMetadata usage\<rparr>))
              else Inr (HumanMessage content)))"

text \<open>
  For the statement about the decoder: the tool calls that parse, in order, and the
  identifiers the decoder gives them when \<open>k\<close> calls of \<^verbatim>\<open>uuidv4\<close> were made before.
\<close>

definition wellFormed ::
  "('j MistralAIToolCall \<Rightarrow> string + 'j ToolCall) \<Rightarrow> 'j MistralAIToolCall list
     \<Rightarrow> 'j ToolCall list" where
  "wellFormed parseToolCall raws =
     concat (map (\<lambda>raw. case parseToolCall raw of Inl m \<Rightarrow> [] | Inr p \<Rightarrow> [p]) raws)"

fun withIds :: "(nat \<Rightarrow> string) \<Rightarrow> nat \<Rightarrow> 'j ToolCall list \<Rightarrow> 'j ToolCall list" where
  "withIds uuidv4 k [] = []"
| "withIds uuidv4 k (p # ps) =
     (case tc_id p of
        Some i \<Rightarrow> p # withIds uuidv4 k ps
      | None \<Rightarrow> p\<lparr>tc_id := Some (freshId uuidv4 k)\<rparr> # withIds uuidv4 (Suc k) ps)"

subsection \<open>The streaming delta decoder\<close>

record 'j Delta =
  delta_role :: "string option"
  delta_content :: "string option"
  delta_tool_calls :: "'j MistralAIToolCall list option"

text \<open>An element of \<^verbatim>\<open>rawToolCallChunksWithIndex\<close>.\<close>

record 'j IndexedToolCall =
  ix_function :: "'j FunctionCall option"
  ix_index :: nat
  ix_id :: string

record ToolCallChunk =
  chunk_name :: "string option"
  chunk_args :: "string option"
  chunk_id :: string
  chunk_index :: nat

text \<open>
  The fields handed to the chunk constructors. \<open>None\<close> is a field that is not passed
  or is passed as \<^verbatim>\<open>undefined\<close>; \<open>Some ()\<close> is the empty object of
  \<^verbatim>\<open>additional_kwargs\<close>.
\<close>

record AIMessageChunkFields =
  aic_content :: string
  aic_tool_call_chunks :: "ToolCallChunk list option"
  aic_additional_kwargs :: "unit option"
  aic_usage_metadata :: "UsageMetadata option"

record ToolMessageChunkFields =
  tmc_content :: string
  tmc_additional_kwargs :: "unit option"
  tmc_tool_call_id :: string

datatype MessageChunk =
    AIMessageChunk AIMessageChunkFields
  | HumanMessageChunk string
  | ToolMessageChunk ToolMessageChunkFields
  | FunctionMessageChunk string "unit option"
  | ChatMessageChunk string string

text \<open>
  The callback of \<^verbatim>\<open>delta.tool_calls.map\<close>: the position, and the id or a fresh one.
  \<open>k\<close> counts the calls of \<^verbatim>\<open>uuidv4\<close> made so far.
\<close>

fun withIndex ::
  "(nat \<Rightarrow> string) \<Rightarrow> nat \<Rightarrow> nat \<Rightarrow> 'j MistralAIToolCall list \<Rightarrow> 'j IndexedToolCall list" where
  "withIndex uuidv4 k index [] = []"
| "withIndex uuidv4 k index (toolCall # rest) =
     (case call_id toolCall of
        Some i \<Rightarrow>
          \<lparr>ix_function = call_function toolCall, ix_index = index, ix_id = i\<rparr>
            # withIndex uuidv4 k (Suc index) rest
      | None \<Rightarrow>
          \<lparr>ix_function = call_function toolCall, ix_index = index, ix_id = freshId uuidv4 k\<rparr>
            # withIndex uuidv4 (Suc k) (Suc index) rest)"

text \<open>
  The body of the loop that fills \<^verbatim>\<open>toolCallChunks\<close>. \<^verbatim>\<open>JSON.stringify\<close> is the
  parameter \<open>stringify\<close>.
\<close>

definition toolCallChunk :: "('j \<Rightarrow> string) \<Rightarrow> 'j IndexedToolCall \<Rightarrow> ToolCallChunk" where
  "toolCallChunk stringify rawToolCallChunk =
     (let rawArgs = (case ix_function rawToolCallChunk of
                       None \<Rightarrow> None | Some f \<Rightarrow> fn_arguments f);
          args = (case rawArgs of
                    None \<Rightarrow> None
                  | Some (ArgumentsString s) \<Rightarrow> Some s
                  | Some (ArgumentsObject j) \<Rightarrow> Some (stringify j))
      in \<lparr>chunk_name = map_option fn_name (ix_function rawToolCallChunk), chunk_args = args,
          chunk_id = ix_id rawToolCallChunk, chunk_index = ix_index rawToolCallChunk\<rparr>)"

text \<open>
  The expression \<^verbatim>\<open>rawToolCallChunksWithIndex?.[0].id ?? ""\<close>: on
  \<^verbatim>\<open>undefined\<close> the chain yields \<^verbatim>\<open>undefined\<close> and the default is taken; on an
  array, element 0 is read and then its \<^verbatim>\<open>id\<close>, which is a type error when the
  array has no element 0.
\<close>

definition firstToolCallId :: "'j IndexedToolCall list option \<Rightarrow> error + string" where
  "firstToolCallId rawToolCallChunksWithIndex =
     (case rawToolCallChunksWithIndex of
        None \<Rightarrow> Inr []
      | Some [] \<Rightarrow> Inl TypeError
      | Some (c # cs) \<Rightarrow> Inr (ix_id c))"

text \<open>
  \<^verbatim>\<open>_convertDeltaToMessageChunk\<close>. Truthiness is as in JavaScript: the content is
  falsy when it is absent or the empty string, the tool call array is falsy only when
  it is absent, and its \<^verbatim>\<open>length\<close> is falsy when it is empty.
\<close>

definition convertDeltaToMessageChunk ::
  "(nat \<Rightarrow> string) \<Rightarrow> ('j \<Rightarrow> string) \<Rightarrow> 'j Delta \<Rightarrow> UsageInfo option
     \<Rightarrow> error + MessageChunk option" where
  "convertDeltaToMessageChunk uuidv4 stringify delta usage =
     (if (delta_content delta = None \<or> delta_content delta = Some [])
         \<and> delta_tool_calls delta = None
      then (case usage of
              Some u \<Rightarrow>
                Inr (Some (AIMessageChunk \<lparr>aic_content = [], aic_tool_call_chunks = None,
                             aic_additional_kwargs = None,
                             aic_usage_metadata = usageMetadata usage\<rparr>))
            | None \<Rightarrow> Inr None)
      else
        (let rawToolCallChunksWithIndex =
               (case delta_tool_calls delta of
                  Some (t # ts) \<Rightarrow> Some (withIndex uuidv4 0 0 (t # ts))
                | _ \<Rightarrow> None);
             role = (case delta_role delta of
                       None \<Rightarrow> ''assistant''
                     | Some r \<Rightarrow> if r = [] then ''assistant'' else r);
             content = (case delta_content delta of None \<Rightarrow> [] | Some c \<Rightarrow> c);
             additional_kwargs = (case rawToolCallChunksWithIndex of
                                    None \<Rightarrow> Some () | Some cs \<Rightarrow> None);
             toolCallChunks = (case rawToolCallChunksWithIndex of
                                 None \<Rightarrow> []
                               | Some cs \<Rightarrow> map (toolCallChunk stringify) cs)
         in if role = ''user'' then Inr (Some (HumanMessageChunk content))
            else if role = ''assistant''
              then Inr (Some (AIMessageChunk \<lparr>aic_content = content,
                                aic_tool_call_chunks = Some toolCallChunks,
                                aic_additional_kwargs = additional_kwargs,
                                aic_usage_metadata = usageMetadata usage\<rparr>))
            else if role = ''tool''
              then (case firstToolCallId rawToolCallChunksWithIndex of
                      Inl e \<Rightarrow> Inl e
                    | Inr i \<Rightarrow>
                        Inr (Some (ToolMessageChunk \<lparr>tmc_content = content,
                                     tmc_additional_kwargs = additional_kwargs,
                                     tmc_tool_call_id = i\<rparr>)))
            else if role = ''function''
              then Inr (Some (FunctionMessageChunk content additional_kwargs))
            else Inr (Some (ChatMessageChunk content role))))"

section \<open>The chat model\<close>

subsection \<open>Construction and call options\<close>

record ChatMistralAIInput =
  input_streamUsage :: "bool option"

record ChatMistralAI =
  streamUsage :: bool

record CallOptions =
  opt_streamUsage :: "bool option"

text \<open>
  The constructor, for the field modelled: the class initialises
  \<^verbatim>\<open>streamUsage = true\<close>, and the constructor assigns
  \<^verbatim>\<open>fields?.streamUsage ?? this.streamUsage\<close>; \<open>given\<close> is its argument
  \<^verbatim>\<open>fields\<close>.
\<close>

definition newChatMistralAI :: "ChatMistralAIInput option \<Rightarrow> ChatMistralAI" where
  "newChatMistralAI given =
     \<lparr>streamUsage = (case Option.bind given input_streamUsage of None \<Rightarrow> True | Some b \<Rightarrow> b)\<rparr>"

subsection \<open>completionWithRetry\<close>

text \<open>
  A thrown transport error, with the two properties the handler touches; the record
  is extensible, the other properties of the error object are its \<open>more\<close> part.
\<close>

record TransportError =
  err_message :: "string option"
  err_status :: "int option"

text \<open>\<^verbatim>\<open>s.includes(sub)\<close>: \<open>sub\<close> occurs in \<open>s\<close> at some position.\<close>

fun includesStr :: "string \<Rightarrow> string \<Rightarrow> bool" where
  "includesStr [] sub = (sub = [])"
| "includesStr (c # cs) sub = (prefix sub (c # cs) \<or> includesStr cs sub)"

text \<open>
  \<^verbatim>\<open>toLowerCase\<close> on the ASCII letters. A character outside ASCII is left as it is;
  JavaScript maps none of those to a character of \<^verbatim>\<open>status 400\<close>.
\<close>

definition lowerChar :: "char \<Rightarrow> char" where
  "lowerChar c =
     (let n = (of_char c :: nat) in if 65 \<le> n \<and> n \<le> 90 then char_of (n + 32) else c)"

definition toLowerCase :: "string \<Rightarrow> string" where
  "toLowerCase s = map lowerChar s"

text \<open>The condition of the \<^verbatim>\<open>if\<close> in the handler; each disjunct starts with
  \<^verbatim>\<open>e.message?.\<close> and is falsy when there is no message.\<close>

definition isBadRequest :: "'a TransportError_scheme \<Rightarrow> bool" where
  "isBadRequest e =
     (case err_message e of
        None \<Rightarrow> False
      | Some message \<Rightarrow>
          includesStr message ''status: 400''
          \<or> includesStr (toLowerCase message) ''status 400''
          \<or> includesStr message ''validation failed'')"

text \<open>
  The function passed to \<^verbatim>\<open>this.caller.call\<close>: the transport call chosen by
  \<open>streaming\<close>, and the \<^verbatim>\<open>catch\<close> handler. The two transport calls
  \<^verbatim>\<open>client.chat.stream\<close> and \<^verbatim>\<open>client.chat.complete\<close> are the parameters
  \<open>chat_stream\<close> and \<open>chat_complete\<close>; the caller that runs the function is the
  framework's and is not part of the model.
\<close>

definition completionWithRetry ::
  "('i \<Rightarrow> 'a TransportError_scheme + 'r) \<Rightarrow> ('i \<Rightarrow> 'a TransportError_scheme + 'r) \<Rightarrow> 'i \<Rightarrow> bool
     \<Rightarrow> 'a TransportError_scheme + 'r" where
  "completionWithRetry chat_stream chat_complete input streaming =
     (case (if streaming then chat_stream input else chat_complete input) of
        Inr res \<Rightarrow> Inr res
      | Inl e \<Rightarrow> if isBadRequest e then Inl (e\<lparr>err_status := Some 400\<rparr>) else Inl e)"

subsection \<open>The response stream\<close>

record 'j StreamChoice =
  sc_index :: "nat option"
  sc_delta :: "'j Delta option"

record 'j CompletionChunk =
  cc_choices :: "'j StreamChoice list"
  cc_usage :: "UsageInfo option"

record 'j CompletionEvent =
  ev_data :: "'j CompletionChunk option"

record NewTokenIndices =
  prompt :: nat
  completion :: "nat option"

record ChatGenerationChunk =
  gen_message :: MessageChunk
  gen_text :: string
  gen_generationInfo :: "NewTokenIndices option"

text \<open>The expression \<^verbatim>\<open>this.streamUsage || options.streamUsage\<close>, as a truth value.\<close>

definition shouldStreamUsage :: "ChatMistralAI \<Rightarrow> CallOptions \<Rightarrow> bool" where
  "shouldStreamUsage this options =
     (if streamUsage this then True
      else (case opt_streamUsage options of None \<Rightarrow> False | Some b \<Rightarrow> b))"

text \<open>
  The usage handed to the delta decoder:
  \<^verbatim>\<open>shouldStreamUsage ? data.usage : null\<close>.
\<close>

definition usageFor :: "ChatMistralAI \<Rightarrow> CallOptions \<Rightarrow> 'j CompletionChunk \<Rightarrow> UsageInfo option" where
  "usageFor this options data = (if shouldStreamUsage this options then cc_usage data else None)"

text \<open>
  One turn of the loop of \<^verbatim>\<open>_streamResponseChunks\<close>. \<open>aborted\<close> is what
  \<^verbatim>\<open>options.signal?.aborted\<close> reads when the event arrives. The result is an error
  thrown, \<open>Inr None\<close> for \<^verbatim>\<open>continue\<close>, or the chunk yielded. A choice without a
  \<^verbatim>\<open>delta\<close> property and a choice whose \<^verbatim>\<open>delta\<close> is falsy both have
  \<open>sc_delta = None\<close>.
\<close>

definition streamEvent ::
  "(nat \<Rightarrow> string) \<Rightarrow> ('j \<Rightarrow> string) \<Rightarrow> ChatMistralAI \<Rightarrow> CallOptions \<Rightarrow> bool
     \<Rightarrow> 'j CompletionEvent \<Rightarrow> error + ChatGenerationChunk option" where
  "streamEvent uuidv4 stringify this options aborted event =
     (if aborted then Inl AbortError
      else
        (case ev_data event of
           None \<Rightarrow> Inr None
         | Some data \<Rightarrow>
             (case cc_choices data of
                [] \<Rightarrow> Inr None
              | choice # others \<Rightarrow>
                  (case sc_delta choice of
                     None \<Rightarrow> Inr None
                   | Some delta \<Rightarrow>
                       (let newTokenIndices =
                              \<lparr>prompt = 0,
                               completion = Some (case sc_index choice of
                                                    None \<Rightarrow> 0 | Some i \<Rightarrow> i)\<rparr>
                        in case convertDeltaToMessageChunk uuidv4 stringify delta
                                  (usageFor this options data) of
                             Inl e \<Rightarrow> Inl e
                           | Inr None \<Rightarrow> Inr None
                           | Inr (Some message) \<Rightarrow>
                               Inr (Some \<lparr>gen_message = message,
                                          gen_text = (case delta_content delta of
                                                        None \<Rightarrow> [] | Some c \<Rightarrow> c),
                                          gen_generationInfo = Some newTokenIndices\<rparr>))))))"

text \<open>
  The generator: the events in order, each with the abort flag read on its arrival;
  the result is the chunks yielded and the error that ended the stream, if any.
  \<open>uuidv4 n\<close> is the identifier source during event \<open>n\<close>.
\<close>

fun streamResponseChunks ::
  "(nat \<Rightarrow> nat \<Rightarrow> string) \<Rightarrow> ('j \<Rightarrow> string) \<Rightarrow> ChatMistralAI \<Rightarrow> CallOptions \<Rightarrow> nat
     \<Rightarrow> (bool \<times> 'j CompletionEvent) list \<Rightarrow> ChatGenerationChunk list \<times> error option" where
  "streamResponseChunks uuidv4 stringify this options n [] = ([], None)"
| "streamResponseChunks uuidv4 stringify this options n ((aborted, event) # rest) =
     (case streamEvent (uuidv4 n) stringify this options aborted event of
        Inl e \<Rightarrow> ([], Some e)
      | Inr None \<Rightarrow> streamResponseChunks uuidv4 stringify this options (Suc n) rest
      | Inr (Some chunk) \<Rightarrow>
          (case streamResponseChunks uuidv4 stringify this options (Suc n) rest of
             (cs, r) \<Rightarrow> (chunk # cs, r)))"

subsection \<open>Numbers as property keys\<close>

text \<open>
  \<^verbatim>\<open>finalChunks\<close> is a plain object used as a dictionary: the choice index, a
  number, is turned into its text when it is used as a property key, and the final
  sort reads the keys back with \<^verbatim>\<open>parseInt(key, 10)\<close>. The index is a zero-based
  choice slot, a natural number. The texts of the language are:
  \<^item> up to \<open>2^53\<close> the number type holds every integer exactly, and the text of an
    integer is its decimal digits;
  \<^item> above \<open>2^53\<close> the text is made of the shortest decimal digits that read back as
    the number: below \<open>10^21\<close> these digits followed by zeros, and from \<open>10^21\<close> on
    the exponent form, the first digit, a point and the other digits if there are
    any, then \<^verbatim>\<open>e+\<close> and the exponent.
  Which digits are the shortest, and which number a long digit string reads back as,
  is a matter of the floating-point representation: the parameter \<open>shortest\<close> gives,
  for a number above \<open>2^53\<close>, the integer written by its shortest digits followed by
  zeros, and the parameter \<open>nearest\<close> gives the number that an integer above \<open>2^53\<close>
  reads back as.
\<close>

definition digitChar :: "nat \<Rightarrow> char" where
  "digitChar d = char_of (48 + d)"

definition isDigit :: "char \<Rightarrow> bool" where
  "isDigit c = (48 \<le> (of_char c :: nat) \<and> (of_char c :: nat) \<le> 57)"

definition digitValue :: "char \<Rightarrow> nat" where
  "digitValue c = of_char c - 48"

function decimal :: "nat \<Rightarrow> string" where
  "decimal n = (if n < 10 then [digitChar n] else decimal (n div 10) @ [digitChar (n mod 10)])"
  by pat_completeness auto
termination
  by (relation "measure (\<lambda>n. n)") auto

declare decimal.simps [simp del]

definition digitsValue :: "string \<Rightarrow> nat" where
  "digitsValue ds = foldl (\<lambda>a c. 10 * a + digitValue c) 0 ds"

text \<open>The exponent form of the number whose shortest digits, followed by zeros, write \<open>m\<close>.\<close>

definition exponentForm :: "nat \<Rightarrow> string" where
  "exponentForm m =
     (let ds = decimal m;
          significant = rev (dropWhile (\<lambda>c. c = CHR ''0'') (rev ds))
      in (case significant of
            [] \<Rightarrow> []
          | d # rest \<Rightarrow> d # (if rest = [] then [] else CHR ''.'' # rest))
         @ ''e+'' @ decimal (length ds - 1))"

text \<open>The text of the number \<open>n\<close>, which is its property key.\<close>

definition numberToString :: "(nat \<Rightarrow> nat) \<Rightarrow> nat \<Rightarrow> string" where
  "numberToString shortest n =
     (if n \<le> 9007199254740992 then decimal n
      else if n < 1000000000000000000000 then decimal (shortest n)
      else exponentForm (shortest n))"

text \<open>
  \<^verbatim>\<open>parseInt(key, 10)\<close> on a property key made from a number: the leading decimal
  digits are read, and there is no number (\<^verbatim>\<open>NaN\<close>) when the key starts with none.
  Such a key starts with no white space and no sign.
\<close>

definition numberOf :: "(nat \<Rightarrow> nat) \<Rightarrow> nat \<Rightarrow> nat" where
  "numberOf nearest v = (if v \<le> 9007199254740992 then v else nearest v)"

definition parseInt :: "(nat \<Rightarrow> nat) \<Rightarrow> string \<Rightarrow> nat option" where
  "parseInt nearest key =
     (case takeWhile isDigit key of
        [] \<Rightarrow> None
      | d # ds \<Rightarrow> Some (numberOf nearest (digitsValue (d # ds))))"

text \<open>
  An array index is a key that is the decimal text of an integer below \<open>2^32 - 1\<close>.
  \<^verbatim>\<open>Object.entries\<close> lists the entries with array-index keys first, in ascending
  order of the index, and then the other entries in the order of their creation.
\<close>

definition isArrayIndex :: "string \<Rightarrow> bool" where
  "isArrayIndex key =
     (key \<noteq> [] \<and> list_all isDigit key \<and> decimal (digitsValue key) = key
      \<and> digitsValue key < 4294967295)"

definition objectEntries :: "(string \<times> 'c) list \<Rightarrow> (string \<times> 'c) list" where
  "objectEntries obj =
     sort_key (\<lambda>e. digitsValue (fst e)) (filter (\<lambda>e. isArrayIndex (fst e)) obj)
     @ filter (\<lambda>e. \<not> isArrayIndex (fst e)) obj"

text \<open>
  The comparator \<^verbatim>\<open>parseInt(aKey, 10) - parseInt(bKey, 10)\<close>, as the test that its
  result is not positive; a result that is not a number counts as zero. The sort is
  stable: an entry moves behind a later one only when the comparator is positive.
\<close>

definition notAfter :: "(nat \<Rightarrow> nat) \<Rightarrow> string \<times> 'c \<Rightarrow> string \<times> 'c \<Rightarrow> bool" where
  "notAfter nearest a b =
     (case parseInt nearest (fst a) of
        None \<Rightarrow> True
      | Some x \<Rightarrow> (case parseInt nearest (fst b) of None \<Rightarrow> True | Some y \<Rightarrow> x \<le> y))"

fun insertSorted :: "('a \<Rightarrow> 'a \<Rightarrow> bool) \<Rightarrow> 'a \<Rightarrow> 'a list \<Rightarrow> 'a list" where
  "insertSorted le x [] = [x]"
| "insertSorted le x (y # ys) = (if le x y then x # y # ys else y # insertSorted le x ys)"

definition sortEntries :: "('a \<Rightarrow> 'a \<Rightarrow> bool) \<Rightarrow> 'a list \<Rightarrow> 'a list" where
  "sortEntries le xs = foldr (insertSorted le) xs []"

subsection \<open>The streaming branch of generate\<close>

definition completionIndex :: "ChatGenerationChunk \<Rightarrow> nat" where
  "completionIndex chunk =
     (case gen_generationInfo chunk of
        None \<Rightarrow> 0
      | Some info \<Rightarrow> (case completion info of None \<Rightarrow> 0 | Some i \<Rightarrow> i))"

text \<open>
  The assignment \<^verbatim>\<open>finalChunks[index] = v\<close> on the list of the object's entries in
  the order of their creation: an existing property keeps its place.
\<close>

fun setEntry :: "string \<Rightarrow> 'c \<Rightarrow> (string \<times> 'c) list \<Rightarrow> (string \<times> 'c) list" where
  "setEntry key v [] = [(key, v)]"
| "setEntry key v ((k, w) # rest) =
     (if k = key then (k, v) # rest else (k, w) # setEntry key v rest)"

text \<open>
  The body of the \<^verbatim>\<open>for await\<close> loop. \<^verbatim>\<open>ChatGenerationChunk.concat\<close> (of the
  framework) is not among the sources; it is the parameter \<open>cat\<close>.
\<close>

definition addChunk ::
  "(nat \<Rightarrow> nat) \<Rightarrow> (ChatGenerationChunk \<Rightarrow> ChatGenerationChunk \<Rightarrow> ChatGenerationChunk)
     \<Rightarrow> (string \<times> ChatGenerationChunk) list \<Rightarrow> ChatGenerationChunk
     \<Rightarrow> (string \<times> ChatGenerationChunk) list" where
  "addChunk shortest cat finalChunks chunk =
     (let index = completionIndex chunk;
          key = numberToString shortest index
      in case map_of finalChunks key of
           None \<Rightarrow> setEntry key chunk finalChunks
         | Some acc \<Rightarrow> setEntry key (cat acc chunk) finalChunks)"

text \<open>
  The loop over the chunks of the stream, and the final
  \<^verbatim>\<open>Object.entries(finalChunks).sort(...).map(([_, value]) => value)\<close>.
\<close>

definition streamGenerations ::
  "(nat \<Rightarrow> nat) \<Rightarrow> (nat \<Rightarrow> nat)
     \<Rightarrow> (ChatGenerationChunk \<Rightarrow> ChatGenerationChunk \<Rightarrow> ChatGenerationChunk)
     \<Rightarrow> ChatGenerationChunk list \<Rightarrow> ChatGenerationChunk list" where
  "streamGenerations shortest nearest cat stream =
     map snd (sortEntries (notAfter nearest)
       (objectEntries (foldl (addChunk shortest cat) [] stream)))"

text \<open>
  The streaming branch of \<^verbatim>\<open>_generate\<close>: an error of the stream leaves the function
  and nothing of the accumulated state is returned.
\<close>

definition generateStreaming ::
  "(nat \<Rightarrow> nat) \<Rightarrow> (nat \<Rightarrow> nat)
     \<Rightarrow> (ChatGenerationChunk \<Rightarrow> ChatGenerationChunk \<Rightarrow> ChatGenerationChunk)
     \<Rightarrow> ChatGenerationChunk list \<times> error option \<Rightarrow> error + ChatGenerationChunk list" where
  "generateStreaming shortest nearest cat stream =
     (case stream of
        (chunks, Some e) \<Rightarrow> Inl e
      | (chunks, None) \<Rightarrow> Inr (streamGenerations shortest nearest cat chunks))"

text \<open>
  For the statement about the aggregation: the chunks of a list combined from the
  left, the first one seeding the accumulator.
\<close>

definition concatInArrivalOrder :: "('c \<Rightarrow> 'c \<Rightarrow> 'c) \<Rightarrow> 'c list \<Rightarrow> 'c option" where
  "concatInArrivalOrder cat cs =
     (case cs of [] \<Rightarrow> None | c # rest \<Rightarrow> Some (foldl cat c rest))"

section \<open>Example inputs\<close>

text \<open>Three outbound messages: a system message, a tool result and an assistant message.\<close>

definition exampleMessages :: "unit BaseMessage list" where
  "exampleMessages =
     [\<lparr>msg_type = ''system'', msg_content = ContentString ''be brief'', msg_name = None,
        msg_tool_call_id = None, msg_tool_calls = None, msg_additional_tool_calls = None\<rparr>,
       \<lparr>msg_type = ''tool'', msg_content = ContentString ''42'', msg_name = Some ''calc'',
        msg_tool_call_id = Some ''call_0123456789'', msg_tool_calls = None,
        msg_additional_tool_calls = None\<rparr>,
       \<lparr>msg_type = ''ai'', msg_content = ContentString ''done'', msg_name = None,
        msg_tool_call_id = None, msg_tool_calls = Some [], msg_additional_tool_calls = None\<rparr>]"

definition exampleToOpenAI :: "unit ToolCall \<Rightarrow> unit MistralAIToolCall" where
  "exampleToOpenAI t = \<lparr>call_id = tc_id t, call_function = None\<rparr>"

definition exampleProviderMessages :: "unit MistralAIMessage list" where
  "exampleProviderMessages =
     [PlainMessage ''system'' (MistralString ''be brief''),
      ToolResultMessage ''tool'' (MistralString ''42'') (Some ''calc'') ''call_0123'',
      AssistantMessage ''assistant'' (MistralString ''done'') None]"

text \<open>
  A stream of six chunks with the choice indices 0, 1, 0, 2, 1, 0 (the third chunk has
  no index), and a combination of chunks that joins their texts.
\<close>

definition exampleChunk :: "string \<Rightarrow> nat option \<Rightarrow> ChatGenerationChunk" where
  "exampleChunk t i =
     \<lparr>gen_message = HumanMessageChunk t, gen_text = t,
      gen_generationInfo = Some \<lparr>prompt = 0, completion = i\<rparr>\<rparr>"

definition exampleConcat :: "ChatGenerationChunk \<Rightarrow> ChatGenerationChunk \<Rightarrow> ChatGenerationChunk" where
  "exampleConcat a b = a\<lparr>gen_text := gen_text a @ gen_text b\<rparr>"

definition exampleStream :: "ChatGenerationChunk list" where
  "exampleStream =
     [exampleChunk ''a'' (Some 0), exampleChunk ''b'' (Some 1), exampleChunk ''c'' None,
      exampleChunk ''d'' (Some 2), exampleChunk ''e'' (Some 1), exampleChunk ''f'' (Some 0)]"

text \<open>
  A stream with the indices 2 and \<open>10^21\<close>, and a stream with the index \<open>2^64\<close>, which
  is above \<open>2^53\<close>: its shortest digits write 18446744073709552000, which reads back
  as \<open>2^64\<close>. The number \<open>10^21\<close> is written by its own digits.
\<close>

definition exampleHugeStream :: "ChatGenerationChunk list" where
  "exampleHugeStream =
     [exampleChunk ''two'' (Some 2), exampleChunk ''big'' (Some 1000000000000000000000)]"

definition exampleLargeStream :: "ChatGenerationChunk list" where
  "exampleLargeStream =
     [exampleChunk ''a'' (Some 18446744073709551616), exampleChunk ''b'' (Some 7),
      exampleChunk ''c'' (Some 18446744073709551616)]"

definition exampleShortest :: "nat \<Rightarrow> nat" where
  "exampleShortest n = (if n = 18446744073709551616 then 18446744073709552000 else n)"

definition exampleNearest :: "nat \<Rightarrow> nat" where
  "exampleNearest v = (if v = 18446744073709552000 then 18446744073709551616 else v)"

text \<open>
  A response with one tool call that parses and one whose argument text is cut off,
  and a parser that rejects the cut-off text.
\<close>

definition exampleParse :: "string MistralAIToolCall \<Rightarrow> string + string ToolCall" where
  "exampleParse raw =
     (case call_function raw of
        None \<Rightarrow> Inl ''no function''
      | Some f \<Rightarrow>
          (case fn_arguments f of
             Some (ArgumentsString a) \<Rightarrow>
               if a = ''{a:'' then Inl ''Unexpected end of JSON input''
               else Inr \<lparr>tc_name = fn_name f, tc_args = a, tc_id = call_id raw\<rparr>
           | _ \<Rightarrow> Inl ''arguments are not a string''))"

definition exampleGoodCall :: "string MistralAIToolCall" where
  "exampleGoodCall =
     \<lparr>call_id = None,
      call_function = Some \<lparr>fn_name = ''add'', fn_arguments = Some (ArgumentsString ''{}'')\<rparr>\<rparr>"

definition exampleBadCall :: "string MistralAIToolCall" where
  "exampleBadCall =
     \<lparr>call_id = Some ''abc'',
      call_function = Some \<lparr>fn_name = ''mul'', fn_arguments = Some (ArgumentsString ''{a:'')\<rparr>\<rparr>"

definition exampleResponseMessage :: "string ResponseMessage" where
  "exampleResponseMessage =
     \<lparr>resp_role = ''assistant'', resp_content = None,
      resp_tool_calls = Some [exampleGoodCall, exampleBadCall]\<rparr>"

definition exampleUuid :: "nat \<Rightarrow> string" where
  "exampleUuid k = ''12-34''"

text \<open>A tool-role delta with two tool call fragments, and a transport error.\<close>

definition exampleToolDelta :: "string Delta" where
  "exampleToolDelta =
     \<lparr>delta_role = Some ''tool'', delta_content = Some ''42'',
      delta_tool_calls = Some [\<lparr>call_id = Some ''first'', call_function = None\<rparr>,
                               \<lparr>call_id = None, call_function = None\<rparr>]\<rparr>"

definition exampleError :: TransportError where
  "exampleError = \<lparr>err_message = Some ''API error: Status 400'', err_status = None\<rparr>"

section \<open>Theorems\<close>

subsection \<open>Role mapping\<close>

lemma getRole_range:
  "getRole role = Inr r \<Longrightarrow> r \<in> {''system'', ''user'', ''assistant'', ''tool''}"
  by (auto simp: getRole_def split: if_splits)

text \<open>
  Claim C5. The role mapper sends human to "user", ai to "assistant", system to
  "system", tool to "tool" and function to "assistant"; on every other value it fails
  with the error that names the offending tag; and whenever it returns, the result is
  one of system, user, assistant, tool.
\<close>

theorem C5_getRole_total_on_closed_set:
  "getRole ''human'' = Inr ''user''
   \<and> getRole ''ai'' = Inr ''assistant''
   \<and> getRole ''system'' = Inr ''system''
   \<and> getRole ''tool'' = Inr ''tool''
   \<and> getRole ''function'' = Inr ''assistant''
   \<and> (role \<notin> {''system'', ''human'', ''ai'', ''tool'', ''function''}
        \<longrightarrow> getRole role = Inl (UnknownMessageType role))
   \<and> (\<forall>r. getRole role = Inr r
        \<longrightarrow> r \<in> {''system'', ''user'', ''assistant'', ''tool''})"
  by (auto simp: getRole_def)

text \<open>The theorem at the message type \<^verbatim>\<open>generic\<close>, which is outside the closed set.\<close>

theorem C5_getRole_witness:
  "getRole ''generic'' = Inl (UnknownMessageType ''generic'')
   \<and> getRole ''function'' = Inr ''assistant''"
  using C5_getRole_total_on_closed_set [of "''generic''"] by simp

subsection \<open>Mapping with a callback that may throw\<close>

lemma mapE_Inr_iff:
  "mapE f xs = Inr ys \<longleftrightarrow>
     length ys = length xs \<and> (\<forall>i<length xs. f (xs ! i) = Inr (ys ! i))"
proof (induction xs arbitrary: ys)
  case Nil
  then show ?case by auto
next
  case (Cons x xs)
  show ?case
  proof (cases ys)
    case Nil
    then show ?thesis by (auto split: sum.splits)
  next
    case (Cons y ys')
    then show ?thesis using Cons.IH [of ys']
      by (auto split: sum.splits simp: nth_Cons less_Suc_eq_0_disj split: nat.splits)
  qed
qed

lemma mapE_fails:
  "x \<in> set xs \<Longrightarrow> f x = Inl e \<Longrightarrow> \<forall>y e'. f y = Inl e' \<longrightarrow> P e'
     \<Longrightarrow> \<exists>e'. mapE f xs = Inl e' \<and> P e'"
  by (induction xs) (auto split: sum.splits)

lemma mapE_succeeds:
  "(\<And>x. x \<in> set xs \<Longrightarrow> \<exists>y. f x = Inr y) \<Longrightarrow> \<exists>ys. mapE f xs = Inr ys"
  by (induction xs) (fastforce split: sum.splits)+

subsection \<open>Content translation\<close>

lemma getContent_rejects_part:
  assumes "getRole role = Inr mistralRole" and "p \<in> set parts"
    and "mistralRole \<noteq> ''user''" and "part_type p \<noteq> ''text''"
  shows "\<exists>e. getContent (ContentArray parts) role = Inl e \<and> isContentShapeError e"
proof (cases "mistralRole = ''system''")
  case True
  have "systemChunk (ContentArray parts) p = Inl (SystemContentNotSupported (ContentArray parts))"
    using assms(4) by (simp add: systemChunk_def)
  with mapE_fails [OF assms(2), of "systemChunk (ContentArray parts)" _ isContentShapeError]
  have "\<exists>e. mapE (systemChunk (ContentArray parts)) parts = Inl e \<and> isContentShapeError e"
    by (auto simp: systemChunk_def split: if_splits)
  then show ?thesis using assms(1,3) True
    by (auto simp: getContent_def asChunks_def)
next
  case False
  then show ?thesis using assms(1,3) by (simp add: getContent_def)
qed

lemma getContent_other_roles:
  assumes "getRole role = Inr mistralRole"
    and "mistralRole \<noteq> ''user''" and "mistralRole \<noteq> ''system''"
  shows "getContent (ContentArray parts) role
           = Inl (NonTextContentNotSupported (ContentArray parts))"
  using assms by (simp add: getContent_def)

lemma getContent_user_accepts:
  assumes "getRole role = Inr ''user''"
    and "\<forall>p\<in>set parts. part_type p = ''text'' \<or> part_type p = ''image_url''"
  shows "\<exists>c. getContent (ContentArray parts) role = Inr c"
proof -
  have "\<exists>ys. mapE (userChunk (ContentArray parts)) parts = Inr ys"
    using assms(2) by (intro mapE_succeeds) (auto simp: userChunk_def)
  then show ?thesis using assms(1) by (auto simp: getContent_def asChunks_def)
qed

lemma getContent_system_accepts:
  assumes "getRole role = Inr ''system''" and "\<forall>p\<in>set parts. part_type p = ''text''"
  shows "\<exists>c. getContent (ContentArray parts) role = Inr c"
proof -
  have "\<exists>ys. mapE (systemChunk (ContentArray parts)) parts = Inr ys"
    using assms(2) by (intro mapE_succeeds) (auto simp: systemChunk_def)
  then show ?thesis using assms(1) by (auto simp: getContent_def asChunks_def)
qed

lemma getContent_v2_rejects_part:
  assumes "getRole role = Inr mistralRole" and "p \<in> set parts"
    and "generateContentChunk (ContentArray parts) p mistralRole = Inl e"
  shows "\<exists>e. getContent_v2 (ContentArray parts) role = Inl e \<and> isContentShapeError e"
proof -
  from mapE_fails [OF assms(2),
      of "\<lambda>c. generateContentChunk (ContentArray parts) c mistralRole" e isContentShapeError]
    assms(3)
  have "\<exists>e. mapE (\<lambda>c. generateContentChunk (ContentArray parts) c mistralRole) parts = Inl e
          \<and> isContentShapeError e"
    by (auto simp: generateContentChunk_def split: if_splits)
  then show ?thesis using assms(1) by (auto simp: getContent_v2_def asChunks_def)
qed

lemma getContent_v2_user_accepts:
  assumes "getRole role = Inr ''user''"
    and "\<forall>p\<in>set parts. part_type p = ''text'' \<or> part_type p = ''image_url''"
  shows "\<exists>c. getContent_v2 (ContentArray parts) role = Inr c"
proof -
  have "\<exists>ys. mapE (\<lambda>c. generateContentChunk (ContentArray parts) c ''user'') parts = Inr ys"
    using assms(2) by (intro mapE_succeeds) (auto simp: generateContentChunk_def)
  then show ?thesis using assms(1) by (auto simp: getContent_v2_def asChunks_def)
qed

lemma getContent_v2_system_accepts:
  assumes "getRole role = Inr ''system''" and "\<forall>p\<in>set parts. part_type p = ''text''"
  shows "\<exists>c. getContent_v2 (ContentArray parts) role = Inr c"
proof -
  have "\<exists>ys. mapE (\<lambda>c. generateContentChunk (ContentArray parts) c ''system'') parts = Inr ys"
    using assms(2) by (intro mapE_succeeds) (auto simp: generateContentChunk_def)
  then show ?thesis using assms(1) by (auto simp: getContent_v2_def asChunks_def)
qed

text \<open>
  The first revision of \<^verbatim>\<open>getContent\<close> meets the content invariant in full: an
  array fails under a role other than user as soon as it holds an image part, fails
  under a role other than user and system as soon as it holds a text part, fails under
  the roles assistant and tool whatever it holds, and is translated when it holds text
  parts under system, or text and image parts under user.
\<close>

lemma getContent_content_invariant:
  assumes "getRole role = Inr mistralRole"
  shows "((\<exists>p\<in>set parts. part_type p = ''image_url'') \<and> mistralRole \<noteq> ''user''
            \<longrightarrow> (\<exists>e. getContent (ContentArray parts) role = Inl e \<and> isContentShapeError e))
       \<and> ((\<exists>p\<in>set parts. part_type p = ''text'') \<and> mistralRole \<noteq> ''user''
              \<and> mistralRole \<noteq> ''system''
            \<longrightarrow> (\<exists>e. getContent (ContentArray parts) role = Inl e \<and> isContentShapeError e))
       \<and> (mistralRole = ''assistant'' \<or> mistralRole = ''tool''
            \<longrightarrow> (\<exists>e. getContent (ContentArray parts) role = Inl e \<and> isContentShapeError e))
       \<and> (mistralRole = ''system'' \<and> (\<forall>p\<in>set parts. part_type p = ''text'')
            \<longrightarrow> (\<exists>c. getContent (ContentArray parts) role = Inr c))
       \<and> (mistralRole = ''user''
              \<and> (\<forall>p\<in>set parts. part_type p = ''text'' \<or> part_type p = ''image_url'')
            \<longrightarrow> (\<exists>c. getContent (ContentArray parts) role = Inr c))"
proof (intro conjI impI)
  assume "(\<exists>p\<in>set parts. part_type p = ''image_url'') \<and> mistralRole \<noteq> ''user''"
  then obtain p where "p \<in> set parts" "part_type p = ''image_url''" "mistralRole \<noteq> ''user''"
    by blast
  then show "\<exists>e. getContent (ContentArray parts) role = Inl e \<and> isContentShapeError e"
    using getContent_rejects_part [OF assms, of p parts] by simp
next
  assume "(\<exists>p\<in>set parts. part_type p = ''text'') \<and> mistralRole \<noteq> ''user''
            \<and> mistralRole \<noteq> ''system''"
  then show "\<exists>e. getContent (ContentArray parts) role = Inl e \<and> isContentShapeError e"
    using getContent_other_roles [OF assms, of parts] by simp
next
  assume "mistralRole = ''assistant'' \<or> mistralRole = ''tool''"
  then show "\<exists>e. getContent (ContentArray parts) role = Inl e \<and> isContentShapeError e"
    using getContent_other_roles [OF assms, of parts] by auto
next
  assume "mistralRole = ''system'' \<and> (\<forall>p\<in>set parts. part_type p = ''text'')"
  then show "\<exists>c. getContent (ContentArray parts) role = Inr c"
    using getContent_system_accepts [of role parts] assms by simp
next
  assume "mistralRole = ''user''
            \<and> (\<forall>p\<in>set parts. part_type p = ''text'' \<or> part_type p = ''image_url'')"
  then show "\<exists>c. getContent (ContentArray parts) role = Inr c"
    using getContent_user_accepts [of role parts] assms by simp
qed

text \<open>
  The second revision meets it on every array that is not empty: there the roles
  assistant and tool fail at the first part, whatever its type.
\<close>

lemma getContent_v2_content_invariant:
  assumes "getRole role = Inr mistralRole"
  shows "((\<exists>p\<in>set parts. part_type p = ''image_url'') \<and> mistralRole \<noteq> ''user''
            \<longrightarrow> (\<exists>e. getContent_v2 (ContentArray parts) role = Inl e \<and> isContentShapeError e))
       \<and> ((\<exists>p\<in>set parts. part_type p = ''text'') \<and> mistralRole \<noteq> ''user''
              \<and> mistralRole \<noteq> ''system''
            \<longrightarrow> (\<exists>e. getContent_v2 (ContentArray parts) role = Inl e \<and> isContentShapeError e))
       \<and> ((mistralRole = ''assistant'' \<or> mistralRole = ''tool'') \<and> parts \<noteq> []
            \<longrightarrow> (\<exists>e. getContent_v2 (ContentArray parts) role = Inl e \<and> isContentShapeError e))
       \<and> (mistralRole = ''system'' \<and> (\<forall>p\<in>set parts. part_type p = ''text'')
            \<longrightarrow> (\<exists>c. getContent_v2 (ContentArray parts) role = Inr c))
       \<and> (mistralRole = ''user''
              \<and> (\<forall>p\<in>set parts. part_type p = ''text'' \<or> part_type p = ''image_url'')
            \<longrightarrow> (\<exists>c. getContent_v2 (ContentArray parts) role = Inr c))"
proof (intro conjI impI)
  assume "(\<exists>p\<in>set parts. part_type p = ''image_url'') \<and> mistralRole \<noteq> ''user''"
  then obtain p where p: "p \<in> set parts" "part_type p = ''image_url''" "mistralRole \<noteq> ''user''"
    by blast
  then have "generateContentChunk (ContentArray parts) p mistralRole
               = Inl (ContentChunkNotSupported (ContentArray parts))"
    by (simp add: generateContentChunk_def)
  from getContent_v2_rejects_part [OF assms p(1) this]
  show "\<exists>e. getContent_v2 (ContentArray parts) role = Inl e \<and> isContentShapeError e" .
next
  assume "(\<exists>p\<in>set parts. part_type p = ''text'') \<and> mistralRole \<noteq> ''user''
            \<and> mistralRole \<noteq> ''system''"
  then obtain p where p: "p \<in> set parts" "mistralRole \<noteq> ''user''" "mistralRole \<noteq> ''system''"
    by blast
  then have "generateContentChunk (ContentArray parts) p mistralRole
               = Inl (ContentChunkNotSupported (ContentArray parts))"
    by (simp add: generateContentChunk_def)
  from getContent_v2_rejects_part [OF assms p(1) this]
  show "\<exists>e. getContent_v2 (ContentArray parts) role = Inl e \<and> isContentShapeError e" .
next
  assume a: "(mistralRole = ''assistant'' \<or> mistralRole = ''tool'') \<and> parts \<noteq> []"
  then obtain p where p: "p \<in> set parts" by (cases parts) auto
  have "generateContentChunk (ContentArray parts) p mistralRole
               = Inl (ContentChunkNotSupported (ContentArray parts))"
    using a by (auto simp: generateContentChunk_def)
  from getContent_v2_rejects_part [OF assms p this]
  show "\<exists>e. getContent_v2 (ContentArray parts) role = Inl e \<and> isContentShapeError e" .
next
  assume "mistralRole = ''system'' \<and> (\<forall>p\<in>set parts. part_type p = ''text'')"
  then show "\<exists>c. getContent_v2 (ContentArray parts) role = Inr c"
    using getContent_v2_system_accepts [of role parts] assms by simp
next
  assume "mistralRole = ''user''
            \<and> (\<forall>p\<in>set parts. part_type p = ''text'' \<or> part_type p = ''image_url'')"
  then show "\<exists>c. getContent_v2 (ContentArray parts) role = Inr c"
    using getContent_v2_user_accepts [of role parts] assms by simp
qed

text \<open>
  Claim C2. An array of content parts under the mapped role assistant or tool must
  fail with a content-shape error. At the empty array under the message type
  \<^verbatim>\<open>ai\<close>, whose mapped role is assistant, the first revision fails as the claim
  says, and the second revision returns the empty list of chunks: its callback is
  never called, and the role is looked at nowhere else.
\<close>

theorem C2_getContent_v2_accepts_empty_array:
  "getRole ''ai'' = Inr ''assistant''
   \<and> getContent (ContentArray []) ''ai'' = Inl (NonTextContentNotSupported (ContentArray []))
   \<and> getContent_v2 (ContentArray []) ''ai'' = Inr (MistralChunks [])"
  by (simp add: getRole_def getContent_def getContent_v2_def asChunks_def)

subsection \<open>The outbound message list\<close>

lemma convertMessage_Inr_iff:
  "convertMessage gc conv toOpenAI m = Inr y \<longleftrightarrow>
     (\<exists>role content. getRole (msg_type m) = Inr role
        \<and> gc (msg_content m) (msg_type m) = Inr content
        \<and> y = specOutboundMessage conv toOpenAI role content m)"
  by (auto simp: convertMessage_def specOutboundMessage_def isAIMessage_def Let_def
      split: sum.splits option.splits)

text \<open>
  Claim C4. \<^verbatim>\<open>convertMessagesToMistralMessages\<close> returns a list exactly when every
  message has a mapped role and a translatable content, and then the list has one
  provider message per input message, at the same position, of the shape the kind of
  the input message determines: role, content, name and coerced id for a message
  with a string \<^verbatim>\<open>tool_call_id\<close>; role, content and tool calls for an assistant
  message; role and content for any other. This holds of both revisions.
\<close>

theorem C4_convertMessages_one_to_one:
  "(convertMessagesToMistralMessages conv toOpenAI messages = Inr out \<longleftrightarrow>
      length out = length messages \<and>
      (\<forall>i<length messages. \<exists>role content.
          getRole (msg_type (messages ! i)) = Inr role
          \<and> getContent (msg_content (messages ! i)) (msg_type (messages ! i)) = Inr content
          \<and> out ! i = specOutboundMessage conv toOpenAI role content (messages ! i)))
   \<and> (convertMessagesToMistralMessages_v2 conv toOpenAI messages = Inr out \<longleftrightarrow>
      length out = length messages \<and>
      (\<forall>i<length messages. \<exists>role content.
          getRole (msg_type (messages ! i)) = Inr role
          \<and> getContent_v2 (msg_content (messages ! i)) (msg_type (messages ! i)) = Inr content
          \<and> out ! i = specOutboundMessage conv toOpenAI role content (messages ! i)))"
  unfolding convertMessagesToMistralMessages_def convertMessagesToMistralMessages_v2_def
    mapE_Inr_iff convertMessage_Inr_iff by simp

text \<open>
  The theorem at the three example messages: the conversion returns the three
  provider messages, in order.
\<close>

theorem C4_convertMessages_witness:
  "convertMessagesToMistralMessages (take 9) exampleToOpenAI exampleMessages
     = Inr exampleProviderMessages
   \<and> length exampleProviderMessages = length exampleMessages"
proof -
  have run: "convertMessagesToMistralMessages (take 9) exampleToOpenAI exampleMessages
      = Inr exampleProviderMessages"
    by (simp add: convertMessagesToMistralMessages_def convertMessage_def exampleMessages_def
        exampleProviderMessages_def getRole_def getContent_def getTools_def isAIMessage_def)
  from C4_convertMessages_one_to_one [THEN conjunct1, THEN iffD1, OF run]
  have "length exampleProviderMessages = length exampleMessages" by (rule conjunct1)
  with run show ?thesis by (rule conjI)
qed

subsection \<open>The response decoder\<close>

lemma parseRawToolCalls_eq:
  "parseRawToolCalls parse mk uuid raws (k, tcs, ivs)
   = (k + length (filter (\<lambda>p. tc_id p = None) (wellFormed parse raws)),
      tcs @ withIds uuid k (wellFormed parse raws),
      ivs @ concat (map (\<lambda>raw. case parse raw of Inl m \<Rightarrow> [mk raw m] | Inr p \<Rightarrow> []) raws))"
proof (induction raws arbitrary: k tcs ivs)
  case Nil
  show ?case by (simp add: wellFormed_def)
next
  case (Cons raw raws)
  show ?case
  proof (cases "parse raw")
    case (Inl m)
    then show ?thesis using Cons.IH by (simp add: wellFormed_def)
  next
    case (Inr p)
    then show ?thesis using Cons.IH by (cases "tc_id p") (simp_all add: wellFormed_def)
  qed
qed

lemma withIds_length: "length (withIds uuid k ps) = length ps"
  by (induction ps arbitrary: k) (auto split: option.splits)

lemma withIds_nth:
  "n < length ps \<Longrightarrow>
   withIds uuid k ps ! n =
     (case tc_id (ps ! n) of
        Some i \<Rightarrow> ps ! n
      | None \<Rightarrow> (ps ! n)\<lparr>tc_id := Some (freshId uuid
                    (k + length (filter (\<lambda>p. tc_id p = None) (take n ps))))\<rparr>)"
proof (induction ps arbitrary: k n)
  case Nil
  then show ?case by simp
next
  case (Cons p ps)
  show ?case
  proof (cases n)
    case 0
    then show ?thesis by (simp split: option.splits)
  next
    case (Suc m)
    then have "m < length ps" using Cons.prems by simp
    from Cons.IH [OF this] show ?thesis using Suc
      by (cases "tc_id p") (simp_all split: option.splits)
  qed
qed

text \<open>
  Claim C3. For a response message with role "assistant" the decoder succeeds. Its
  invalid tool calls are, in order, the records made from the raw payload and the
  error text of each raw tool call that fails to parse. Its tool calls are, in order,
  the raw tool calls that parse, each with the parsed name and arguments and with the
  provider's id, or, where the provider gave none, an identifier synthesized by the
  next call of the generator.
\<close>

theorem C3_invalid_tool_calls_recovered:
  assumes "resp_message choice = Some message" and "resp_role message = ''assistant''"
  shows "\<exists>fields.
     mistralAIResponseToChatMessage parse mk uuid choice usage = Inr (AIMessage fields)
     \<and> ai_invalid_tool_calls fields
         = concat (map (\<lambda>raw. case parse raw of Inl m \<Rightarrow> [mk raw m] | Inr p \<Rightarrow> [])
             (case resp_tool_calls message of None \<Rightarrow> [] | Some cs \<Rightarrow> cs))
     \<and> length (ai_tool_calls fields)
         = length (wellFormed parse
             (case resp_tool_calls message of None \<Rightarrow> [] | Some cs \<Rightarrow> cs))
     \<and> (\<forall>n < length (ai_tool_calls fields).
           (let p = wellFormed parse
                      (case resp_tool_calls message of None \<Rightarrow> [] | Some cs \<Rightarrow> cs) ! n;
                t = ai_tool_calls fields ! n
            in tc_name t = tc_name p \<and> tc_args t = tc_args p
               \<and> tc_id t = Some (case tc_id p of
                     Some i \<Rightarrow> i
                   | None \<Rightarrow> freshId uuid (length (filter (\<lambda>q. tc_id q = None)
                       (take n (wellFormed parse
                          (case resp_tool_calls message of
                             None \<Rightarrow> [] | Some cs \<Rightarrow> cs))))))))"
proof -
  let ?raws = "case resp_tool_calls message of None \<Rightarrow> [] | Some cs \<Rightarrow> cs"
  let ?wf = "wellFormed parse ?raws"
  let ?fields = "\<lparr>ai_content = (case resp_content message of None \<Rightarrow> [] | Some c \<Rightarrow> c),
                  ai_tool_calls = withIds uuid 0 ?wf,
                  ai_invalid_tool_calls =
                    concat (map (\<lambda>raw. case parse raw of
                                          Inl m \<Rightarrow> [mk raw m] | Inr p \<Rightarrow> []) ?raws),
                  ai_usage_metadata = usageMetadata usage\<rparr>"
  have run: "mistralAIResponseToChatMessage parse mk uuid choice usage = Inr (AIMessage ?fields)"
    using assms by (simp add: mistralAIResponseToChatMessage_def parseRawToolCalls_eq Let_def)
  have ids: "\<forall>n < length (withIds uuid 0 ?wf).
           (let p = ?wf ! n; t = withIds uuid 0 ?wf ! n
            in tc_name t = tc_name p \<and> tc_args t = tc_args p
               \<and> tc_id t = Some (case tc_id p of
                     Some i \<Rightarrow> i
                   | None \<Rightarrow> freshId uuid
                       (length (filter (\<lambda>q. tc_id q = None) (take n ?wf)))))"
    by (auto simp: withIds_length withIds_nth Let_def split: option.splits)
  show ?thesis
    by (rule exI [of _ ?fields]) (use run ids in \<open>simp add: withIds_length\<close>)
qed

text \<open>
  The theorem at the example response: one tool call parses and gets a synthesized
  id, the other is recorded as invalid with its payload and the parser's message.
\<close>

theorem C3_invalid_tool_calls_witness:
  "resp_role exampleResponseMessage = ''assistant''
   \<and> mistralAIResponseToChatMessage exampleParse Pair exampleUuid
        \<lparr>resp_message = Some exampleResponseMessage\<rparr> None
      = Inr (AIMessage
          \<lparr>ai_content = [],
           ai_tool_calls = [\<lparr>tc_name = ''add'', tc_args = ''{}'', tc_id = Some ''1234''\<rparr>],
           ai_invalid_tool_calls = [(exampleBadCall, ''Unexpected end of JSON input'')],
           ai_usage_metadata = None\<rparr>)"
proof -
  have m: "resp_message \<lparr>resp_message = Some exampleResponseMessage\<rparr>
             = Some exampleResponseMessage" by simp
  have r: "resp_role exampleResponseMessage = ''assistant''"
    by (simp add: exampleResponseMessage_def)
  from C3_invalid_tool_calls_recovered [OF m r, of exampleParse Pair exampleUuid None]
  obtain fields where "mistralAIResponseToChatMessage exampleParse Pair exampleUuid
        \<lparr>resp_message = Some exampleResponseMessage\<rparr> None = Inr (AIMessage fields)"
    by blast
  moreover have "mistralAIResponseToChatMessage exampleParse Pair exampleUuid
        \<lparr>resp_message = Some exampleResponseMessage\<rparr> None
      = Inr (AIMessage
          \<lparr>ai_content = [],
           ai_tool_calls = [\<lparr>tc_name = ''add'', tc_args = ''{}'', tc_id = Some ''1234''\<rparr>],
           ai_invalid_tool_calls = [(exampleBadCall, ''Unexpected end of JSON input'')],
           ai_usage_metadata = None\<rparr>)"
    by (simp add: mistralAIResponseToChatMessage_def exampleResponseMessage_def
        exampleParse_def exampleGoodCall_def exampleBadCall_def exampleUuid_def
        freshId_def usageMetadata_def)
  ultimately show ?thesis using r by simp
qed

subsection \<open>The streaming delta decoder\<close>

text \<open>
  When the content is absent or empty and the tool call array is absent, the decoder
  returns nothing without usage, and with usage the chunk that carries only the usage.
\<close>

lemma convertDeltaToMessageChunk_absent:
  assumes "delta_content delta = None \<or> delta_content delta = Some []"
    and "delta_tool_calls delta = None"
  shows "convertDeltaToMessageChunk uuid stringify delta None = Inr None"
    and "convertDeltaToMessageChunk uuid stringify delta (Some u)
           = Inr (Some (AIMessageChunk \<lparr>aic_content = [], aic_tool_call_chunks = None,
                          aic_additional_kwargs = None,
                          aic_usage_metadata = usageMetadata (Some u)\<rparr>))"
  using assms by (simp_all add: convertDeltaToMessageChunk_def)

text \<open>
  Claim C6. A delta whose content and tool calls are both empty or absent must
  produce nothing when no usage is supplied. At the delta with no content and the
  empty tool call array, without usage, the decoder returns an assistant chunk: the
  guard tests the array for absence, and the empty array passes it.
\<close>

theorem C6_empty_tool_call_array_not_skipped:
  "convertDeltaToMessageChunk (\<lambda>k. []) (\<lambda>j :: unit. [])
     \<lparr>delta_role = None, delta_content = None, delta_tool_calls = Some []\<rparr> None
   = Inr (Some (AIMessageChunk \<lparr>aic_content = [], aic_tool_call_chunks = Some [],
                  aic_additional_kwargs = Some (), aic_usage_metadata = None\<rparr>))"
  by (simp add: convertDeltaToMessageChunk_def usageMetadata_def)

lemma withIndex_first:
  "ix_id (withIndex uuid k i (t # ts) ! 0)
     = (case call_id t of Some x \<Rightarrow> x | None \<Rightarrow> freshId uuid k)"
  by (simp split: option.splits)

lemma firstToolCallId_withIndex:
  "firstToolCallId (Some (withIndex uuid k i (t # ts)))
     = Inr (case call_id t of Some x \<Rightarrow> x | None \<Rightarrow> freshId uuid k)"
  by (simp add: firstToolCallId_def split: option.splits)

text \<open>The decoder throws on no delta: element 0 is read of non-empty arrays only.\<close>

lemma convertDeltaToMessageChunk_no_fault:
  "\<exists>r. convertDeltaToMessageChunk uuid stringify delta usage = Inr r"
proof (cases "delta_tool_calls delta")
  case None
  then show ?thesis
    by (auto simp: convertDeltaToMessageChunk_def firstToolCallId_def Let_def
        split: option.splits)
next
  case (Some tcs)
  show ?thesis
  proof (cases tcs)
    case Nil
    with Some show ?thesis
      by (auto simp: convertDeltaToMessageChunk_def firstToolCallId_def Let_def
          split: option.splits)
  next
    case (Cons t ts)
    with Some show ?thesis
      by (auto simp: convertDeltaToMessageChunk_def firstToolCallId_withIndex Let_def
          simp del: withIndex.simps split: option.splits)
  qed
qed

text \<open>
  Claim C7. For a delta whose role is "tool" the decoder never faults on the read of
  element 0; the tool-result chunk it produces has as \<^verbatim>\<open>tool_call_id\<close> the id of
  the first tool call fragment when the delta has at least one tool call, and the
  empty string when it has none; the id of the first fragment is the provider's id
  of the first tool call, or the synthesized one where the provider gave none. The
  chunk is produced unless the content is empty or absent and the tool calls are
  absent.
\<close>

theorem C7_tool_call_id_of_first_fragment:
  assumes "delta_role delta = Some ''tool''"
  shows "(\<exists>r. convertDeltaToMessageChunk uuid stringify delta usage = Inr r)
   \<and> (\<forall>fields. convertDeltaToMessageChunk uuid stringify delta usage
                  = Inr (Some (ToolMessageChunk fields))
        \<longrightarrow> tmc_tool_call_id fields
              = (case delta_tool_calls delta of
                   Some (t # ts) \<Rightarrow> ix_id (withIndex uuid 0 0 (t # ts) ! 0)
                 | _ \<Rightarrow> []))
   \<and> (\<forall>t ts. ix_id (withIndex uuid 0 0 (t # ts) ! 0)
                = (case call_id t of Some i \<Rightarrow> i | None \<Rightarrow> freshId uuid 0))
   \<and> (\<not> ((delta_content delta = None \<or> delta_content delta = Some [])
            \<and> delta_tool_calls delta = None)
        \<longrightarrow> (\<exists>fields. convertDeltaToMessageChunk uuid stringify delta usage
                        = Inr (Some (ToolMessageChunk fields))))"
proof (cases "delta_tool_calls delta")
  case None
  then show ?thesis using assms
    by (auto simp: convertDeltaToMessageChunk_def firstToolCallId_def withIndex_first
        split: option.splits)
next
  case (Some tcs)
  show ?thesis
  proof (cases tcs)
    case Nil
    with Some show ?thesis using assms
      by (auto simp: convertDeltaToMessageChunk_def firstToolCallId_def withIndex_first
          split: option.splits)
  next
    case (Cons t ts)
    with Some show ?thesis using assms
      by (auto simp: convertDeltaToMessageChunk_def firstToolCallId_withIndex withIndex_first
          simp del: withIndex.simps split: option.splits)
  qed
qed

text \<open>
  The theorem at the example delta, which has two fragments, and at the same delta
  with an empty tool call array.
\<close>

theorem C7_tool_call_id_witness:
  "delta_role exampleToolDelta = Some ''tool''
   \<and> convertDeltaToMessageChunk exampleUuid (\<lambda>j. j) exampleToolDelta None
       = Inr (Some (ToolMessageChunk \<lparr>tmc_content = ''42'', tmc_additional_kwargs = None,
                      tmc_tool_call_id = ''first''\<rparr>))
   \<and> convertDeltaToMessageChunk exampleUuid (\<lambda>j. j)
         (exampleToolDelta\<lparr>delta_tool_calls := Some []\<rparr>) None
       = Inr (Some (ToolMessageChunk \<lparr>tmc_content = ''42'', tmc_additional_kwargs = Some (),
                      tmc_tool_call_id = []\<rparr>))"
proof -
  have r: "delta_role exampleToolDelta = Some ''tool''" by (simp add: exampleToolDelta_def)
  from C7_tool_call_id_of_first_fragment [OF r, of exampleUuid "\<lambda>j. j" None]
  have "\<exists>r. convertDeltaToMessageChunk exampleUuid (\<lambda>j. j) exampleToolDelta None = Inr r"
    by (rule conjunct1)
  then show ?thesis using r
    by (simp add: convertDeltaToMessageChunk_def exampleToolDelta_def firstToolCallId_def)
qed

subsection \<open>Transport errors\<close>

lemma includesStr_sublist: "includesStr s sub \<longleftrightarrow> sublist sub s"
  by (induction s) (simp_all add: sublist_Cons_right)

lemma toLowerCase_example:
  "toLowerCase ''API error: Status 400'' = ''api error: status 400''"
  by code_simp

text \<open>
  Claim C8. When the transport call throws an error, \<^verbatim>\<open>completionWithRetry\<close>
  throws: the same error with its status set to 400 when the message contains
  "status: 400" or "validation failed", or contains "status 400" once lowercased, and
  the error unchanged otherwise. A result of the transport call is returned as it is.
\<close>

theorem C8_bad_request_status:
  "(\<forall>e. (if streaming then chat_stream input else chat_complete input) = Inl e \<longrightarrow>
        completionWithRetry chat_stream chat_complete input streaming
          = Inl (if (\<exists>m. err_message e = Some m
                       \<and> (sublist ''status: 400'' m
                            \<or> sublist ''status 400'' (toLowerCase m)
                            \<or> sublist ''validation failed'' m))
                 then e\<lparr>err_status := Some 400\<rparr> else e))
   \<and> (\<forall>res. (if streaming then chat_stream input else chat_complete input) = Inr res \<longrightarrow>
        completionWithRetry chat_stream chat_complete input streaming = Inr res)"
  by (auto simp: completionWithRetry_def isBadRequest_def includesStr_sublist
      split: option.splits)

text \<open>
  The theorem at a streaming call whose transport throws the example error: the
  message matches once lowercased only, and the status becomes 400.
\<close>

theorem C8_bad_request_witness:
  "completionWithRetry (\<lambda>i :: unit. Inl exampleError) (\<lambda>i. Inr ()) () True
     = Inl (exampleError\<lparr>err_status := Some 400\<rparr>)
   \<and> completionWithRetry (\<lambda>i :: unit. Inl exampleError) (\<lambda>i. Inr ()) () False = Inr ()"
  using C8_bad_request_status [of True "\<lambda>i :: unit. Inl exampleError" "()" "\<lambda>i. Inr ()"]
  by (simp add: completionWithRetry_def isBadRequest_def exampleError_def toLowerCase_example)

subsection \<open>The usage flag\<close>

text \<open>
  Claim C9. The usage flag of a streaming call is off exactly when the instance was
  constructed with \<^verbatim>\<open>streamUsage: false\<close> and the call option is not
  \<^verbatim>\<open>true\<close>. So on an instance constructed otherwise the decoder receives the
  usage of every event whatever the call option says, \<^verbatim>\<open>false\<close> included; and on
  an instance constructed with \<^verbatim>\<open>false\<close> it receives none unless the call option
  is \<^verbatim>\<open>true\<close>.
\<close>

theorem C9_streamUsage_call_option:
  "(shouldStreamUsage (newChatMistralAI given) options
      \<longleftrightarrow> \<not> (Option.bind given input_streamUsage = Some False
              \<and> opt_streamUsage options \<noteq> Some True))
   \<and> (Option.bind given input_streamUsage \<noteq> Some False \<longrightarrow>
        usageFor (newChatMistralAI given) options data = cc_usage data)
   \<and> (Option.bind given input_streamUsage = Some False
        \<and> opt_streamUsage options \<noteq> Some True \<longrightarrow>
        usageFor (newChatMistralAI given) options data = None)"
  by (auto simp: shouldStreamUsage_def newChatMistralAI_def usageFor_def split: option.splits)

text \<open>
  The theorem at an instance constructed without fields and the call option
  \<^verbatim>\<open>streamUsage: false\<close>: the flag is on.
\<close>

theorem C9_streamUsage_witness:
  "Option.bind None input_streamUsage \<noteq> Some False
   \<and> shouldStreamUsage (newChatMistralAI None) \<lparr>opt_streamUsage = Some False\<rparr>
   \<and> usageFor (newChatMistralAI None) \<lparr>opt_streamUsage = Some False\<rparr>
        \<lparr>cc_choices = ([] :: unit StreamChoice list), cc_usage = None\<rparr> = None"
  using C9_streamUsage_call_option [of None "\<lparr>opt_streamUsage = Some False\<rparr>"
      "\<lparr>cc_choices = ([] :: unit StreamChoice list), cc_usage = None\<rparr>"]
  by (simp add: usageFor_def)

subsection \<open>The response stream\<close>

text \<open>
  Claim C10, amended. For each event only the first element of its choices is
  examined: the other choices never change the outcome. When the abort signal has not
  fired, an event whose choices are empty, or whose first choice has no delta, is
  skipped without a chunk and without an error, and a chunk that is emitted is made
  of the index of the first choice (0 when absent), the content of its delta and the
  message decoded from its delta. When the abort signal has fired, the event raises
  the abort error whatever it carries.
\<close>

theorem C10_first_choice_only:
  "streamEvent uuidv4 stringify this options aborted
       \<lparr>ev_data = Some \<lparr>cc_choices = choice # others, cc_usage = usage\<rparr>\<rparr>
     = streamEvent uuidv4 stringify this options aborted
       \<lparr>ev_data = Some \<lparr>cc_choices = [choice], cc_usage = usage\<rparr>\<rparr>
   \<and> (\<not> aborted \<longrightarrow>
        streamEvent uuidv4 stringify this options aborted
          \<lparr>ev_data = Some \<lparr>cc_choices = [], cc_usage = usage\<rparr>\<rparr> = Inr None)
   \<and> (\<not> aborted \<and> sc_delta choice = None \<longrightarrow>
        streamEvent uuidv4 stringify this options aborted
          \<lparr>ev_data = Some \<lparr>cc_choices = choice # others, cc_usage = usage\<rparr>\<rparr> = Inr None)
   \<and> (aborted \<longrightarrow> streamEvent uuidv4 stringify this options aborted event = Inl AbortError)
   \<and> (\<forall>chunk. streamEvent uuidv4 stringify this options aborted
          \<lparr>ev_data = Some \<lparr>cc_choices = choice # others, cc_usage = usage\<rparr>\<rparr>
            = Inr (Some chunk)
        \<longrightarrow> (\<exists>delta message. sc_delta choice = Some delta
              \<and> convertDeltaToMessageChunk uuidv4 stringify delta
                   (if shouldStreamUsage this options then usage else None)
                 = Inr (Some message)
              \<and> chunk = \<lparr>gen_message = message,
                          gen_text = (case delta_content delta of None \<Rightarrow> [] | Some c \<Rightarrow> c),
                          gen_generationInfo =
                            Some \<lparr>prompt = 0,
                                  completion = Some (case sc_index choice of
                                                       None \<Rightarrow> 0 | Some i \<Rightarrow> i)\<rparr>\<rparr>))"
  by (auto simp: streamEvent_def Let_def usageFor_def split: option.splits sum.splits)

text \<open>
  The amended claim at an event with no choices and at an event whose first choice
  has no delta, the abort signal not fired: both are skipped.
\<close>

theorem C10_first_choice_witness:
  "streamEvent exampleUuid (\<lambda>j :: string. j) \<lparr>streamUsage = True\<rparr> \<lparr>opt_streamUsage = None\<rparr>
       False \<lparr>ev_data = Some \<lparr>cc_choices = [], cc_usage = None\<rparr>\<rparr> = Inr None
   \<and> streamEvent exampleUuid (\<lambda>j :: string. j) \<lparr>streamUsage = True\<rparr> \<lparr>opt_streamUsage = None\<rparr>
       False \<lparr>ev_data = Some \<lparr>cc_choices = [\<lparr>sc_index = Some 1, sc_delta = None\<rparr>,
                                                \<lparr>sc_index = Some 0, sc_delta = Some exampleToolDelta\<rparr>],
                                  cc_usage = None\<rparr>\<rparr> = Inr None"
  using C10_first_choice_only [of exampleUuid "\<lambda>j :: string. j" "\<lparr>streamUsage = True\<rparr>"
      "\<lparr>opt_streamUsage = None\<rparr>" False "\<lparr>sc_index = Some 1, sc_delta = None\<rparr>"
      "[\<lparr>sc_index = Some 0, sc_delta = Some exampleToolDelta\<rparr>]" None]
  by (simp add: streamEvent_def)

text \<open>
  Claim C10 as stated fails once the abort signal has fired: the event with no choices
  then raises the abort error instead of being skipped.
\<close>

theorem C10_aborted_event_counterexample:
  "streamEvent exampleUuid (\<lambda>j :: string. j) \<lparr>streamUsage = True\<rparr> \<lparr>opt_streamUsage = None\<rparr>
       True \<lparr>ev_data = Some \<lparr>cc_choices = [], cc_usage = None\<rparr>\<rparr> = Inl AbortError"
  by (simp add: streamEvent_def)

text \<open>
  An error of the stream, the abort error included, ends the streaming branch of
  \<^verbatim>\<open>_generate\<close> with that error; the state accumulated so far is not returned.
\<close>

lemma streamResponseChunks_abort:
  "streamResponseChunks uuidv4 stringify this options n ((True, event) # rest)
     = ([], Some AbortError)"
  by (simp add: streamEvent_def)

lemma generateStreaming_error:
  "generateStreaming shortest nearest cat (chunks, Some e) = Inl e"
  by (simp add: generateStreaming_def)

lemma generateStreaming_complete:
  "generateStreaming shortest nearest cat (chunks, None)
     = Inr (streamGenerations shortest nearest cat chunks)"
  by (simp add: generateStreaming_def)

subsection \<open>Aggregation of the streamed chunks\<close>

end
